theory Spec2Isabelle
  imports Main
begin

text \<open>
  A shallow embedding of the homebridge plugin for Apple TV devices: the accessory's power
  and indicator handlers, the pairing callbacks, the per-device files, the control channel
  \<open>RocketRemote\<close> and the Python environment checker. Each TypeScript method is a function of
  the same name on an explicit state; what a method reads from outside the program (the
  clock, a subprocess's output, the file system) is an argument or a field of that state.
  Logging is left out.
\<close>

section \<open>Errors as values\<close>

text \<open>
  What the modelled code can throw: the \<open>TypeError\<close> of a method call on \<^verbatim>\<open>undefined\<close>, the
  \<open>SyntaxError\<close> of \<^verbatim>\<open>JSON.parse\<close>, and the errors of Node's \<^verbatim>\<open>fs\<close> calls with their codes.
\<close>

datatype errno = EEXIST | ENOENT | ENOTDIR | EISDIR

datatype js_error = TypeError | SyntaxError | FsError errno

section \<open>JavaScript strings\<close>

text \<open>
  A JavaScript string is modelled as a \<^typ>\<open>string\<close>: a list of characters, each read as the
  code unit U+0000 .. U+00FF. Every string method the plugin calls is translated below with
  the behaviour ECMAScript gives it on such strings.
\<close>

text \<open>\<^verbatim>\<open>s.startsWith(p)\<close>, used by the searches below.\<close>

definition startsWith :: "string \<Rightarrow> string \<Rightarrow> bool" where
  "startsWith s p = (take (length p) s = p)"

text \<open>
  \<^verbatim>\<open>s.search('lit')\<close> and \<^verbatim>\<open>s.indexOf('lit')\<close> for a pattern without regular-expression
  metacharacters: the index of the first occurrence, or -1.
\<close>

fun search_from :: "string \<Rightarrow> string \<Rightarrow> int \<Rightarrow> int" where
  "search_from p [] i = (if p = [] then i else -1)"
| "search_from p (c # cs) i = (if startsWith (c # cs) p then i else search_from p cs (i + 1))"

definition search :: "string \<Rightarrow> string \<Rightarrow> int" where
  "search s p = search_from p s 0"

text \<open>\<^verbatim>\<open>s.includes(p)\<close>.\<close>

definition includes_str :: "string \<Rightarrow> string \<Rightarrow> bool" where
  "includes_str s p = (search s p \<noteq> -1)"


text \<open>
  \<^verbatim>\<open>s.split(sep)\<close> for a non-empty separator: the pieces between successive non-overlapping
  occurrences of \<open>sep\<close>, scanned from the left; the empty string gives one empty piece.
  \<open>acc\<close> is the piece being read.
\<close>

fun split_from :: "string \<Rightarrow> string \<Rightarrow> string \<Rightarrow> string list" where
  "split_from sep acc [] = [acc]"
| "split_from sep acc (c # cs) =
     (if startsWith (c # cs) sep
      then acc # split_from sep [] (drop (length sep - 1) cs)
      else split_from sep (acc @ [c]) cs)"

definition split :: "string \<Rightarrow> string \<Rightarrow> string list" where
  "split s sep = split_from sep [] s"


text \<open>
  \<^verbatim>\<open>s.trim()\<close> removes white space and line terminators from both ends. Among the code units
  below U+0100 these are TAB, LF, VT, FF, CR, SPACE and NBSP.
\<close>

definition isWhiteSpace :: "char \<Rightarrow> bool" where
  "isWhiteSpace c = ((of_char c :: nat) \<in> {9, 10, 11, 12, 13, 32, 160})"


definition trim :: "string \<Rightarrow> string" where
  "trim s = rev (dropWhile isWhiteSpace (rev (dropWhile isWhiteSpace s)))"


text \<open>\<^verbatim>\<open>s.replaceAll(a, b)\<close> for one-character \<open>a\<close> and any \<open>b\<close>.\<close>

definition replaceAll :: "string \<Rightarrow> char \<Rightarrow> string \<Rightarrow> string" where
  "replaceAll s a b = concat (map (\<lambda>c. if c = a then b else [c]) s)"



text \<open>
  \<^verbatim>\<open>parseInt(s)\<close> with no radix: leading white space is skipped, then an optional sign, then
  an optional \<open>0x\<close>/\<open>0X\<close> prefix that selects radix 16, then the longest run of digits of the
  radix. No digit gives NaN, modelled as \<open>None\<close>. (The result is exact; a double is, up to
  \<open>2 ^ 53\<close>.)
\<close>

definition digitValue :: "char \<Rightarrow> nat option" where
  "digitValue c =
     (let n = (of_char c :: nat) in
      if 48 \<le> n \<and> n \<le> 57 then Some (n - 48)
      else if 97 \<le> n \<and> n \<le> 102 then Some (n - 87)
      else if 65 \<le> n \<and> n \<le> 70 then Some (n - 55)
      else None)"

definition isDigitOf :: "nat \<Rightarrow> char \<Rightarrow> bool" where
  "isDigitOf radix c = (case digitValue c of None \<Rightarrow> False | Some d \<Rightarrow> d < radix)"



section \<open>The accessory: power state and indicator sensors\<close>

text \<open>
  The part of \<^verbatim>\<open>AppleTVEnhancedAccessory\<close> the event and command handlers read and write.
  A HomeKit service is modelled by the values of its characteristics the handlers touch:
  the Television service by \<open>Active\<close> and \<open>CurrentMediaState\<close>, each motion sensor by its
  \<open>MotionDetected\<close> value. \<^verbatim>\<open>setCharacteristic\<close> stores the value. \<open>deviceCalls\<close> lists the
  commands forwarded to the device, oldest first. Times are \<^verbatim>\<open>Date.now()\<close> in milliseconds.
\<close>

definition INACTIVE :: nat where
  "INACTIVE = 0"

definition ACTIVE :: nat where
  "ACTIVE = 1"

datatype media_state = PLAY | PAUSE | STOP | LOADING | INTERRUPTED

record tv_service =
  Active :: nat
  CurrentMediaState :: media_state

datatype device_call = turnOn | turnOff

record accessory =
  service :: "tv_service option"
  deviceStateServices :: "string \<rightharpoonup> bool"
  mediaTypeServices :: "string \<rightharpoonup> bool"
  offline :: bool
  turningOn :: bool
  lastOnEvent :: int
  deviceCalls :: "device_call list"

text \<open>A \<^verbatim>\<open>NodePyATVDeviceEvent\<close>: \<open>ev_value\<close> is its \<^verbatim>\<open>value\<close>, \<open>None\<close> is \<^verbatim>\<open>null\<close>.\<close>

record event =
  key :: string
  ev_value :: "string option"
  oldValue :: "string option"

text \<open>
  \<^verbatim>\<open>this.deviceStateServices[k].setCharacteristic(MotionDetected, b)\<close>, guarded as in the
  source by the sensor being registered under \<open>k\<close>, and the same for the media-type sensors.
\<close>

definition setDeviceStateMotion :: "string option \<Rightarrow> bool \<Rightarrow> accessory \<Rightarrow> accessory" where
  "setDeviceStateMotion k b s =
     (case k of
        None \<Rightarrow> s
      | Some n \<Rightarrow>
          if deviceStateServices s n \<noteq> None
          then s\<lparr>deviceStateServices := (deviceStateServices s)(n \<mapsto> b)\<rparr>
          else s)"

definition setMediaTypeMotion :: "string option \<Rightarrow> bool \<Rightarrow> accessory \<Rightarrow> accessory" where
  "setMediaTypeMotion k b s =
     (case k of
        None \<Rightarrow> s
      | Some n \<Rightarrow>
          if mediaTypeServices s n \<noteq> None
          then s\<lparr>mediaTypeServices := (mediaTypeServices s)(n \<mapsto> b)\<rparr>
          else s)"

text \<open>\<^verbatim>\<open>this.service?.getCharacteristic(Active).value === INACTIVE\<close>.\<close>

definition serviceInactive :: "accessory \<Rightarrow> bool" where
  "serviceInactive s = (case service s of None \<Rightarrow> False | Some t \<Rightarrow> Active t = INACTIVE)"

text \<open>\<^verbatim>\<open>this.service?.setCharacteristic(CurrentMediaState, m)\<close>.\<close>

definition setCurrentMediaState :: "media_state \<Rightarrow> accessory \<Rightarrow> accessory" where
  "setCurrentMediaState m s =
     (case service s of
        None \<Rightarrow> s
      | Some t \<Rightarrow> s\<lparr>service := Some (t\<lparr>CurrentMediaState := m\<rparr>)\<rparr>)"

definition handleMediaTypeUpdate :: "event \<Rightarrow> accessory \<Rightarrow> accessory" where
  "handleMediaTypeUpdate e s =
     (let s1 = setMediaTypeMotion (oldValue e) False s in
      if serviceInactive s1 then s1
      else setMediaTypeMotion (ev_value e) True s1)"

definition handleDeviceStateUpdate :: "event \<Rightarrow> accessory \<Rightarrow> accessory" where
  "handleDeviceStateUpdate e s =
     (let s1 = setDeviceStateMotion (oldValue e) False s in
      if serviceInactive s1 then s1
      else
        let s2 = setDeviceStateMotion (ev_value e) True s1 in
        if ev_value e = Some ''playing'' then setCurrentMediaState PLAY s2
        else if ev_value e = Some ''paused'' then setCurrentMediaState PAUSE s2
        else if ev_value e = Some ''stopped'' then setCurrentMediaState STOP s2
        else if ev_value e = Some ''loading'' then setCurrentMediaState LOADING s2
        else if ev_value e = None then setCurrentMediaState INTERRUPTED s2
        else s2)"

text \<open>
  The wait of the power-on path: \<^verbatim>\<open>getState()\<close> is polled for \<open>i = 250, 500, ..., 30000\<close>;
  \<open>getState i\<close> is the pair \<open>(mediaType, deviceState)\<close> the poll of step \<open>i\<close> reports. The first
  poll with both present sets the two indicators and leaves the loop.
\<close>

function waitForStates :: "(nat \<Rightarrow> string option \<times> string option) \<Rightarrow> nat \<Rightarrow> accessory \<Rightarrow> accessory" where
  "waitForStates getState i s =
     (if i \<le> 30 * 1000
      then
        let (mediaType, deviceState) = getState i in
        if deviceState = None \<or> mediaType = None
        then waitForStates getState (i + 250) s
        else setDeviceStateMotion deviceState True (setMediaTypeMotion mediaType True s)
      else s)"
  by pat_completeness auto
termination
  by (relation "measure (\<lambda>(getState, i, s). 30251 - i)") auto

text \<open>\<open>handleActiveSet\<close>, run at time \<open>now\<close> with the written value \<open>state\<close>.\<close>

definition handleActiveSet ::
  "(nat \<Rightarrow> string option \<times> string option) \<Rightarrow> int \<Rightarrow> nat \<Rightarrow> accessory \<Rightarrow> accessory" where
  "handleActiveSet getState now state s =
     (if state = ACTIVE \<and> \<not> turningOn s
      then
        let s1 = s\<lparr>turningOn := True, lastOnEvent := now, deviceCalls := deviceCalls s @ [turnOn]\<rparr>;
            s2 = waitForStates getState 250 s1
        in s2\<lparr>turningOn := False\<rparr>
      else if state = INACTIVE \<and> lastOnEvent s + 7500 < now
      then s\<lparr>deviceCalls := deviceCalls s @ [turnOff]\<rparr>
      else s)"

text \<open>
  \<open>handleActiveUpdate\<close>, run at time \<open>now\<close>. \<^verbatim>\<open>this.service!\<close> on a missing service is the
  \<open>TypeError\<close> of calling a method of \<^verbatim>\<open>undefined\<close>.
\<close>

definition handleActiveUpdate :: "int \<Rightarrow> event \<Rightarrow> accessory \<Rightarrow> js_error + accessory" where
  "handleActiveUpdate now e s =
     (if ev_value e = None then Inr s
      else if ev_value e = oldValue e then Inr s
      else
        let v = (if ev_value e = Some ''on'' then ACTIVE else INACTIVE) in
        if v = INACTIVE \<and> lastOnEvent s + 7500 > now then Inr s
        else
          case service s of
            None \<Rightarrow> Inl TypeError
          | Some t \<Rightarrow> Inr (s\<lparr>service := Some (t\<lparr>Active := v\<rparr>)\<rparr>))"

text \<open>
  The listeners of \<open>createListeners\<close>: an \<^verbatim>\<open>Error\<close> is dropped; an event with a value clears
  \<open>offline\<close> and is passed on.
\<close>

datatype event_or_error = Error | Event event

definition filterErrorHandler ::
  "event_or_error \<Rightarrow> (event \<Rightarrow> accessory \<Rightarrow> 'r) \<Rightarrow> 'r \<Rightarrow> accessory \<Rightarrow> 'r" where
  "filterErrorHandler ev listener dropped s =
     (case ev of
        Error \<Rightarrow> dropped
      | Event e \<Rightarrow>
          listener e (if offline s \<and> ev_value e \<noteq> None then s\<lparr>offline := False\<rparr> else s))"

section \<open>Pairing\<close>

text \<open>
  The variables of \<open>pair\<close> that its callbacks share: \<open>goOn\<close>, \<open>success\<close> and \<open>credentials\<close> live
  across the iterations of the pairing loop, \<open>backOffSeconds\<close> and \<open>processClosed\<close> are reset
  at the start of each. \<open>backOffSeconds\<close> is a JavaScript number, \<open>None\<close> being NaN.
  \<open>stdin\<close> lists what was written to the pairing subprocess's input, oldest first.
\<close>

record pairing =
  goOn :: bool
  success :: bool
  credentials :: string
  backOffSeconds :: "int option"
  processClosed :: bool
  stdin :: "string list"

text \<open>\<^verbatim>\<open>xs[i]\<close> on an array: \<open>None\<close> is \<^verbatim>\<open>undefined\<close>.\<close>

definition at_index :: "'a list \<Rightarrow> nat \<Rightarrow> 'a option" where
  "at_index xs i = (if i < length xs then Some (xs ! i) else None)"


definition stderrOnData :: "string \<Rightarrow> pairing \<Rightarrow> pairing" where
  "stderrOnData data p = p\<lparr>goOn := True\<rparr>"

definition processOnClose :: "pairing \<Rightarrow> pairing" where
  "processOnClose p = p\<lparr>processClosed := True\<rparr>"

text \<open>The 32 s watchdog: a newline to the subprocess unless it has closed.\<close>

definition watchdog :: "pairing \<Rightarrow> pairing" where
  "watchdog p = (if \<not> processClosed p then p\<lparr>stdin := stdin p @ [''\<newline>'']\<rparr> else p)"






section \<open>Per-device files\<close>

text \<open>
  The file system as far as the accessory uses it: a path is the list of its components
  from the root, a node is a directory or a file with its text, and the file system maps
  the paths that exist to their nodes. The root always exists. The four calls of Node's
  \<^verbatim>\<open>fs\<close> module fail as Node's do for a path that exists or is missing, a missing parent,
  and a file where a directory is needed, or the reverse.
\<close>

type_synonym path = "string list"

datatype node = Dir | File string

type_synonym filesystem = "path \<rightharpoonup> node"

datatype flag = flag_w | flag_wx

definition node_at :: "filesystem \<Rightarrow> path \<Rightarrow> node option" where
  "node_at files p = (if p = [] then Some Dir else files p)"

definition existsSync :: "path \<Rightarrow> filesystem \<Rightarrow> bool" where
  "existsSync p files = (node_at files p \<noteq> None)"

text \<open>Why an entry cannot be created at \<open>p\<close>: its parent is missing or is a file.\<close>

definition parentError :: "filesystem \<Rightarrow> path \<Rightarrow> errno option" where
  "parentError files p =
     (case node_at files (butlast p) of
        None \<Rightarrow> Some ENOENT
      | Some (File t) \<Rightarrow> Some ENOTDIR
      | Some Dir \<Rightarrow> None)"

definition mkdirSync :: "path \<Rightarrow> filesystem \<Rightarrow> js_error + filesystem" where
  "mkdirSync p files =
     (if node_at files p \<noteq> None then Inl (FsError EEXIST)
      else case parentError files p of
             Some e \<Rightarrow> Inl (FsError e)
           | None \<Rightarrow> Inr (files(p \<mapsto> Dir)))"

definition writeFileSync :: "path \<Rightarrow> string \<Rightarrow> flag \<Rightarrow> filesystem \<Rightarrow> js_error + filesystem" where
  "writeFileSync p content fl files =
     (case node_at files p of
        Some Dir \<Rightarrow> Inl (FsError (if fl = flag_wx then EEXIST else EISDIR))
      | Some (File t) \<Rightarrow>
          if fl = flag_wx then Inl (FsError EEXIST) else Inr (files(p \<mapsto> File content))
      | None \<Rightarrow>
          (case parentError files p of
             Some e \<Rightarrow> Inl (FsError e)
           | None \<Rightarrow> Inr (files(p \<mapsto> File content))))"

definition readFileSync :: "path \<Rightarrow> filesystem \<Rightarrow> js_error + string" where
  "readFileSync p files =
     (case node_at files p of
        Some (File t) \<Rightarrow> Inr t
      | Some Dir \<Rightarrow> Inl (FsError EISDIR)
      | None \<Rightarrow>
          (case parentError files p of
             Some e \<Rightarrow> Inl (FsError e)
           | None \<Rightarrow> Inl (FsError ENOENT)))"

text \<open>
  What the accessory's file methods read besides the file system: the host's storage path
  and the device's identifier (\<open>None\<close> is \<^verbatim>\<open>undefined\<close>). The identifier with its colons
  removed is taken as one path component.
\<close>

record device_ctx =
  storagePath :: path
  deviceId :: "string option"

text \<open>
  The accessory's view of its files: the file system, and the four configurations it
  keeps once parsed (\<open>None\<close> is \<^verbatim>\<open>undefined\<close>). \<open>'j\<close> is the type of parsed JSON values.
\<close>

record 'j storage =
  files :: filesystem
  appConfigs :: "'j option"
  commonConfig :: "'j option"
  stateConfigs :: "'j option"
  mediaConfigs :: "'j option"

definition pluginDir :: "device_ctx \<Rightarrow> path" where
  "pluginDir ctx = storagePath ctx @ [''appletv-enhanced'']"

definition deviceDir :: "device_ctx \<Rightarrow> string \<Rightarrow> path" where
  "deviceDir ctx ident = pluginDir ctx @ [replaceAll ident (CHR '':'') '''']"

text \<open>
  \<open>getPath\<close>: both directories are created when missing, then the default content is
  written with the exclusive flag \<open>wx\<close> and a failure of that write is swallowed. The file
  system is returned also when the call throws.
\<close>

definition getPath ::
  "device_ctx \<Rightarrow> string \<Rightarrow> string \<Rightarrow> filesystem \<Rightarrow> (js_error + path) \<times> filesystem" where
  "getPath ctx file defaultContent fs0 =
     (case (if \<not> existsSync (pluginDir ctx) fs0 then mkdirSync (pluginDir ctx) fs0 else Inr fs0) of
        Inl e \<Rightarrow> (Inl e, fs0)
      | Inr fs1 \<Rightarrow>
          (case deviceId ctx of
             None \<Rightarrow> (Inl TypeError, fs1)
           | Some ident \<Rightarrow>
               (case (if \<not> existsSync (deviceDir ctx ident) fs1
                      then mkdirSync (deviceDir ctx ident) fs1 else Inr fs1) of
                  Inl e \<Rightarrow> (Inl e, fs1)
                | Inr fs2 \<Rightarrow>
                    let filePath = deviceDir ctx ident @ [file] in
                    (case writeFileSync filePath defaultContent flag_wx fs2 of
                       Inl e \<Rightarrow> (Inr filePath, fs2)
                     | Inr fs3 \<Rightarrow> (Inr filePath, fs3)))))"

definition getCredentials :: "device_ctx \<Rightarrow> 'j storage \<Rightarrow> (js_error + string) \<times> 'j storage" where
  "getCredentials ctx st =
     (case getPath ctx ''credentials.txt'' '''' (files st) of
        (Inl e, fs1) \<Rightarrow> (Inl e, st\<lparr>files := fs1\<rparr>)
      | (Inr p, fs1) \<Rightarrow>
          (case readFileSync p fs1 of
             Inl e \<Rightarrow> (Inl e, st\<lparr>files := fs1\<rparr>)
           | Inr t \<Rightarrow> (Inr (trim t), st\<lparr>files := fs1\<rparr>)))"

definition saveCredentials ::
  "device_ctx \<Rightarrow> string \<Rightarrow> 'j storage \<Rightarrow> (js_error + unit) \<times> 'j storage" where
  "saveCredentials ctx creds st =
     (case getPath ctx ''credentials.txt'' '''' (files st) of
        (Inl e, fs1) \<Rightarrow> (Inl e, st\<lparr>files := fs1\<rparr>)
      | (Inr p, fs1) \<Rightarrow>
          (case writeFileSync p creds flag_w fs1 of
             Inl e \<Rightarrow> (Inl e, st\<lparr>files := fs1\<rparr>)
           | Inr fs2 \<Rightarrow> (Inr (), st\<lparr>files := fs2\<rparr>)))"

text \<open>
  The two lines the four configuration getters share:
  \<^verbatim>\<open>JSON.parse(fs.readFileSync(this.getPath(file), 'utf8'))\<close>. \<open>parse\<close> is \<^verbatim>\<open>JSON.parse\<close>, with
  \<open>None\<close> for the \<open>SyntaxError\<close> it throws on a text that is not JSON.
\<close>

definition readJson ::
  "(string \<Rightarrow> 'j option) \<Rightarrow> device_ctx \<Rightarrow> string \<Rightarrow> filesystem \<Rightarrow> (js_error + 'j) \<times> filesystem" where
  "readJson parse ctx file fs0 =
     (case getPath ctx file ''{}'' fs0 of
        (Inl e, fs1) \<Rightarrow> (Inl e, fs1)
      | (Inr p, fs1) \<Rightarrow>
          (case readFileSync p fs1 of
             Inl e \<Rightarrow> (Inl e, fs1)
           | Inr t \<Rightarrow>
               (case parse t of
                  None \<Rightarrow> (Inl SyntaxError, fs1)
                | Some j \<Rightarrow> (Inr j, fs1))))"

definition getAppConfigs ::
  "(string \<Rightarrow> 'j option) \<Rightarrow> device_ctx \<Rightarrow> 'j storage \<Rightarrow> (js_error + 'j) \<times> 'j storage" where
  "getAppConfigs parse ctx st =
     (case appConfigs st of
        Some j \<Rightarrow> (Inr j, st)
      | None \<Rightarrow>
          (case readJson parse ctx ''apps.json'' (files st) of
             (Inl e, fs1) \<Rightarrow> (Inl e, st\<lparr>files := fs1\<rparr>)
           | (Inr j, fs1) \<Rightarrow> (Inr j, st\<lparr>files := fs1, appConfigs := Some j\<rparr>)))"

definition getCommonConfig ::
  "(string \<Rightarrow> 'j option) \<Rightarrow> device_ctx \<Rightarrow> 'j storage \<Rightarrow> (js_error + 'j) \<times> 'j storage" where
  "getCommonConfig parse ctx st =
     (case commonConfig st of
        Some j \<Rightarrow> (Inr j, st)
      | None \<Rightarrow>
          (case readJson parse ctx ''common.json'' (files st) of
             (Inl e, fs1) \<Rightarrow> (Inl e, st\<lparr>files := fs1\<rparr>)
           | (Inr j, fs1) \<Rightarrow> (Inr j, st\<lparr>files := fs1, commonConfig := Some j\<rparr>)))"

definition getMediaConfig ::
  "(string \<Rightarrow> 'j option) \<Rightarrow> device_ctx \<Rightarrow> 'j storage \<Rightarrow> (js_error + 'j) \<times> 'j storage" where
  "getMediaConfig parse ctx st =
     (case mediaConfigs st of
        Some j \<Rightarrow> (Inr j, st)
      | None \<Rightarrow>
          (case readJson parse ctx ''mediaTypes.json'' (files st) of
             (Inl e, fs1) \<Rightarrow> (Inl e, st\<lparr>files := fs1\<rparr>)
           | (Inr j, fs1) \<Rightarrow> (Inr j, st\<lparr>files := fs1, mediaConfigs := Some j\<rparr>)))"

definition getDeviceStateConfig ::
  "(string \<Rightarrow> 'j option) \<Rightarrow> device_ctx \<Rightarrow> 'j storage \<Rightarrow> (js_error + 'j) \<times> 'j storage" where
  "getDeviceStateConfig parse ctx st =
     (case stateConfigs st of
        Some j \<Rightarrow> (Inr j, st)
      | None \<Rightarrow>
          (case readJson parse ctx ''deviceStates.json'' (files st) of
             (Inl e, fs1) \<Rightarrow> (Inl e, st\<lparr>files := fs1\<rparr>)
           | (Inr j, fs1) \<Rightarrow> (Inr j, st\<lparr>files := fs1, stateConfigs := Some j\<rparr>)))"

section \<open>The control channel\<close>

text \<open>
  \<open>RocketRemote\<close> as a state machine. The state holds whether the heartbeat timer is armed
  (\<open>heartbeatInterval\<close>), the registered callback (\<open>onCloseCallable\<close>, a callback being named
  by a number, \<open>None\<close> being \<^verbatim>\<open>undefined\<close>), how many one-shot listeners \<open>onClose\<close> has put on
  the subprocess's \<open>close\<close> event, whether the subprocess has closed, and the effects so far,
  oldest first.
\<close>

datatype stream = stdout | stderr

datatype effect =
    StdinWrite string
  | RemoveAllListeners stream
  | Called nat

record rocket =
  heartbeatInterval :: bool
  onCloseCallable :: "nat option"
  closeListeners :: nat
  exited :: bool
  effects :: "effect list"


definition stdinWrite :: "string \<Rightarrow> rocket \<Rightarrow> rocket" where
  "stdinWrite t s = s\<lparr>effects := effects s @ [StdinWrite t]\<rparr>"

text \<open>The body of the timer of \<open>initHeartbeat\<close>, run each time the timer fires.\<close>

definition heartbeat :: "rocket \<Rightarrow> rocket" where
  "heartbeat s = stdinWrite (''app_list'' @ [CHR 0x0A]) s"

definition sendCommand :: "string \<Rightarrow> rocket \<Rightarrow> rocket" where
  "sendCommand cmd s = stdinWrite (cmd @ [CHR 0x0A]) s"

definition onClose :: "nat \<Rightarrow> rocket \<Rightarrow> rocket" where
  "onClose f s = s\<lparr>onCloseCallable := Some f, closeListeners := closeListeners s + 1\<rparr>"

text \<open>The listener \<open>onClose\<close> registers, run when the subprocess closes.\<close>

definition closeListener :: "rocket \<Rightarrow> rocket" where
  "closeListener s =
     (let s1 = s\<lparr>effects := effects s @ [RemoveAllListeners stdout, RemoveAllListeners stderr],
                 heartbeatInterval := False\<rparr>
      in case onCloseCallable s1 of
           None \<Rightarrow> s1
         | Some f \<Rightarrow> s1\<lparr>effects := effects s1 @ [Called f]\<rparr>)"

text \<open>
  What can happen to a \<open>RocketRemote\<close>: the 15 s timer comes due, the owner sends a command
  or registers a callback, the subprocess closes. A timer that is not armed does not fire;
  a subprocess emits \<open>close\<close> once, and a listener registered with \<^verbatim>\<open>once\<close> is removed as it
  runs.
\<close>

datatype rocket_event = TimerDue | SendCommand string | OnClose nat | ProcessClose

definition step :: "rocket_event \<Rightarrow> rocket \<Rightarrow> rocket" where
  "step e s =
     (case e of
        TimerDue \<Rightarrow> if heartbeatInterval s then heartbeat s else s
      | SendCommand cmd \<Rightarrow> sendCommand cmd s
      | OnClose f \<Rightarrow> onClose f s
      | ProcessClose \<Rightarrow>
          if exited s then s
          else ((closeListener ^^ closeListeners s) s)\<lparr>closeListeners := 0, exited := True\<rparr>)"

fun run :: "rocket_event list \<Rightarrow> rocket \<Rightarrow> rocket" where
  "run [] s = s"
| "run (e # es) s = run es (step e s)"




section \<open>The Python environment checker\<close>

text \<open>More of JavaScript's strings, as \<open>PythonChecker\<close> uses them.\<close>

text \<open>\<^verbatim>\<open>s.replace(pat, rep)\<close> with a string pattern: the first occurrence is replaced.\<close>

definition replaceFirst :: "string \<Rightarrow> string \<Rightarrow> string \<Rightarrow> string" where
  "replaceFirst s pat rep =
     (let i = search s pat in
      if i = -1 then s else take (nat i) s @ rep @ drop (nat i + length pat) s)"

text \<open>
  \<^verbatim>\<open>s.match(/\d+\.\d+\.\d+/)\<close>: the leftmost match, \<open>None\<close> for \<^verbatim>\<open>null\<close>. A run of digits is
  taken whole, since the next character the pattern wants is not a digit.
\<close>

definition isDigit :: "char \<Rightarrow> bool" where
  "isDigit c = isDigitOf 10 c"

definition matchVersionAt :: "string \<Rightarrow> string option" where
  "matchVersionAt s =
     (let d1 = takeWhile isDigit s; r1 = dropWhile isDigit s;
          d2 = takeWhile isDigit (drop 1 r1); r2 = dropWhile isDigit (drop 1 r1);
          d3 = takeWhile isDigit (drop 1 r2)
      in if d1 \<noteq> [] \<and> startsWith r1 ''.'' \<and> d2 \<noteq> [] \<and> startsWith r2 ''.'' \<and> d3 \<noteq> []
         then Some (d1 @ ''.'' @ d2 @ ''.'' @ d3)
         else None)"

fun matchVersion :: "string \<Rightarrow> string option" where
  "matchVersion [] = None"
| "matchVersion (c # cs) =
     (case matchVersionAt (c # cs) of
        Some m \<Rightarrow> Some m
      | None \<Rightarrow> matchVersion cs)"

text \<open>
  A \<^verbatim>\<open>Record<string, string>\<close> built by assignments: the keys in the order they were first
  assigned, each with its last value; a value may be \<^verbatim>\<open>undefined\<close> (\<open>None\<close>). Reading a key
  that is absent gives \<^verbatim>\<open>undefined\<close> too (no package is taken to be named like a property
  of \<^verbatim>\<open>Object.prototype\<close>).
\<close>

type_synonym packages = "(string \<times> string option) list"

fun assign :: "string \<Rightarrow> string option \<Rightarrow> packages \<Rightarrow> packages" where
  "assign k v [] = [(k, v)]"
| "assign k v ((k', v') # r) = (if k = k' then (k, v) # r else (k', v') # assign k v r)"

definition lookup :: "packages \<Rightarrow> string \<Rightarrow> string option" where
  "lookup obj k = (case map_of obj k of None \<Rightarrow> None | Some v \<Rightarrow> v)"

text \<open>
  The machine the checker runs on, as the checker observes it: which paths exist, what
  each query command prints, what PyPI reports as the latest pip (\<open>None\<close> when the request
  fails), and the text of the two requirement files.
\<close>

record system =
  storagePathExists :: bool
  pluginDirExists :: bool
  venvPipExists :: bool
  venvConfigExists :: bool
  venvPythonExists :: bool
  opensslVersionOut :: string
  pythonVersionOut :: string
  venvPythonHomeOut :: string
  systemPythonHomeOut :: string
  pipVersionOut :: string
  pipFreezeOut :: string
  pypiPipVersion :: "string option"
  requirementsDefault :: string
  requirementsLegacy :: string

datatype requirements_file = default_requirements | openssl_legacy_requirements

datatype python = SystemPython | VenvPython

text \<open>
  What the checker does to the machine, one constructor per call site: the directory it
  makes, the subprocesses it starts with \<open>runCommand\<close>, and its request to PyPI.
  \<open>VenvCreate\<close> is \<^verbatim>\<open>python3 -m venv <venv> --clear\<close>, \<open>PipUpgrade\<close> is
  \<^verbatim>\<open>pip3 install --upgrade pip\<close>, \<open>PipInstallRequirements\<close> is \<^verbatim>\<open>pip3 install -r <file>\<close>.
\<close>

datatype action =
    MkdirPluginDir
  | OpensslVersion
  | PythonVersion
  | VenvCreate
  | PythonHome python
  | PipVersion
  | PypiRequest
  | PipUpgrade
  | PipFreeze
  | PipInstallRequirements requirements_file

text \<open>
  What the checker cannot know: the output of the venv creation and the machine each
  changing subprocess leaves behind, and \<^verbatim>\<open>compareVersions\<close> of the \<^verbatim>\<open>compare-versions\<close>
  package.
\<close>

record programs =
  venvCreate :: "system \<Rightarrow> string \<times> system"
  pipUpgrade :: "system \<Rightarrow> system"
  pipInstall :: "requirements_file \<Rightarrow> system \<Rightarrow> system"
  compareVersions :: "string \<Rightarrow> string \<Rightarrow> int"

text \<open>
  The checker: its field \<open>requirementsPath\<close>, the module's list \<open>supportedPythonVersions\<close>,
  the machine, and the actions taken so far, oldest first.
\<close>

record checker =
  requirementsPath :: requirements_file
  supportedPythonVersions :: "string list"
  sys :: system
  actions :: "action list"

text \<open>
  How a method ends: it returns, it never returns (the loops that repeat an error message
  every five minutes), or it throws.
\<close>

datatype outcome = Done checker | Blocked checker | Threw js_error checker

definition andThen :: "outcome \<Rightarrow> (checker \<Rightarrow> outcome) \<Rightarrow> outcome" where
  "andThen r f = (case r of Done s \<Rightarrow> f s | Blocked s \<Rightarrow> Blocked s | Threw e s \<Rightarrow> Threw e s)"

definition MIN_OPENSSL_VERSION :: string where
  "MIN_OPENSSL_VERSION = ''3.0.0''"

definition did :: "action \<Rightarrow> checker \<Rightarrow> checker" where
  "did a s = s\<lparr>actions := actions s @ [a]\<rparr>"

definition freezeStringToObject :: "string \<Rightarrow> packages" where
  "freezeStringToObject v =
     foldl (\<lambda>pkgs line.
              let parts = split line ''=='' in
              assign (replaceAll (case at_index parts 0 of Some pkg \<Rightarrow> pkg | None \<Rightarrow> [])
                        (CHR ''_'') ''-'')
                     (at_index parts 1) pkgs)
           [] (split (trim v) [CHR 0x0A])"

definition requirementsText :: "checker \<Rightarrow> string" where
  "requirementsText s =
     (case requirementsPath s of
        default_requirements \<Rightarrow> requirementsDefault (sys s)
      | openssl_legacy_requirements \<Rightarrow> requirementsLegacy (sys s))"

text \<open>The loop of \<open>areRequirementsSatisfied\<close> over the keys of \<open>requirements\<close>.\<close>

fun allPinned :: "packages \<Rightarrow> packages \<Rightarrow> string list \<Rightarrow> bool" where
  "allPinned freeze requirements [] = True"
| "allPinned freeze requirements (pkg # pkgs) =
     (if lookup freeze pkg \<noteq> lookup requirements pkg then False
      else allPinned freeze requirements pkgs)"

definition areRequirementsSatisfied :: "checker \<Rightarrow> bool \<times> checker" where
  "areRequirementsSatisfied s =
     (let s1 = did PipFreeze s;
          freeze = freezeStringToObject (pipFreezeOut (sys s));
          requirements = freezeStringToObject (requirementsText s1)
      in (allPinned freeze requirements (map fst requirements), s1))"

definition isVenvCreated :: "checker \<Rightarrow> bool" where
  "isVenvCreated s =
     (venvPipExists (sys s) \<and> venvConfigExists (sys s) \<and> venvPythonExists (sys s))"

definition createVenv :: "programs \<Rightarrow> checker \<Rightarrow> outcome" where
  "createVenv P s =
     (let (out, m) = venvCreate P (sys s);
          s1 = (did VenvCreate s)\<lparr>sys := m\<rparr>
      in if includes_str out ''not created successfully'' \<or> \<not> isVenvCreated s1
         then Blocked s1 else Done s1)"

definition ensurePluginDir :: "checker \<Rightarrow> outcome" where
  "ensurePluginDir s =
     (if \<not> pluginDirExists (sys s)
      then if storagePathExists (sys s)
           then Done ((did MkdirPluginDir s)\<lparr>sys := (sys s)\<lparr>pluginDirExists := True\<rparr>\<rparr>)
           else Threw (FsError ENOENT) s
      else Done s)"

definition getSystemPythonVersion :: "checker \<Rightarrow> string \<times> checker" where
  "getSystemPythonVersion s =
     (replaceFirst (trim (pythonVersionOut (sys s))) ''Python '' '''', did PythonVersion s)"

definition ensurePythonVersion :: "checker \<Rightarrow> outcome" where
  "ensurePythonVersion s =
     (let (version, s1) = getSystemPythonVersion s in
      if \<not> list_ex (\<lambda>e. includes_str version e) (supportedPythonVersions s1)
      then Blocked s1 else Done s1)"

definition ensureVenvCreated :: "programs \<Rightarrow> bool \<Rightarrow> checker \<Rightarrow> outcome" where
  "ensureVenvCreated P forceVenvRecreate s =
     (if forceVenvRecreate then createVenv P s
      else if isVenvCreated s = False then createVenv P s
      else Done s)"

definition getPythonHome :: "python \<Rightarrow> checker \<Rightarrow> string \<times> checker" where
  "getPythonHome executable s =
     (trim (case executable of
              VenvPython \<Rightarrow> venvPythonHomeOut (sys s)
            | SystemPython \<Rightarrow> systemPythonHomeOut (sys s)),
      did (PythonHome executable) s)"

definition ensureVenvUsesCorrectPythonHome :: "programs \<Rightarrow> checker \<Rightarrow> outcome" where
  "ensureVenvUsesCorrectPythonHome P s =
     (let (venvPythonHome, s1) = getPythonHome VenvPython s;
          (pythonHome, s2) = getPythonHome SystemPython s1
      in if venvPythonHome \<noteq> pythonHome then createVenv P s2 else Done s2)"

definition getVenvPipVersion :: "checker \<Rightarrow> string \<times> checker" where
  "getVenvPipVersion s =
     (case at_index (split (replaceFirst (trim (pipVersionOut (sys s))) ''pip '' '''') '' '') 0 of
        Some v \<Rightarrow> v
      | None \<Rightarrow> [],
      did PipVersion s)"

definition getMostRecentPipVersion :: "checker \<Rightarrow> string \<times> checker" where
  "getMostRecentPipVersion s =
     (case pypiPipVersion (sys s) of Some v \<Rightarrow> v | None \<Rightarrow> ''error'', did PypiRequest s)"

definition updatePip :: "programs \<Rightarrow> checker \<Rightarrow> checker" where
  "updatePip P s = (did PipUpgrade s)\<lparr>sys := pipUpgrade P (sys s)\<rparr>"

definition ensureVenvPipUpToDate :: "programs \<Rightarrow> checker \<Rightarrow> outcome" where
  "ensureVenvPipUpToDate P s =
     (let (venvPipVersion, s1) = getVenvPipVersion s;
          (latest, s2) = getMostRecentPipVersion s1
      in if venvPipVersion = latest then Done s2 else Done (updatePip P s2))"

definition installRequirements :: "programs \<Rightarrow> checker \<Rightarrow> checker" where
  "installRequirements P s =
     (did (PipInstallRequirements (requirementsPath s)) s)
       \<lparr>sys := pipInstall P (requirementsPath s) (sys s)\<rparr>"

definition ensureVenvRequirementsSatisfied :: "programs \<Rightarrow> checker \<Rightarrow> outcome" where
  "ensureVenvRequirementsSatisfied P s =
     (let (ok, s1) = areRequirementsSatisfied s in
      if ok then Done s1 else Done (installRequirements P s1))"

text \<open>The test of \<open>openSSL\<close> that lets it return early: a version is found and is new enough.\<close>

definition openSSLCompatible :: "programs \<Rightarrow> system \<Rightarrow> bool" where
  "openSSLCompatible P m =
     (case matchVersion (opensslVersionOut m) of
        None \<Rightarrow> False
      | Some r \<Rightarrow> compareVersions P MIN_OPENSSL_VERSION r \<noteq> 1)"

definition openSSL :: "programs \<Rightarrow> checker \<Rightarrow> outcome" where
  "openSSL P s =
     (let s1 = did OpensslVersion s in
      if openSSLCompatible P (sys s1) then Done s1
      else Done (s1\<lparr>requirementsPath := openssl_legacy_requirements,
                    supportedPythonVersions :=
                      filter (\<lambda>e. e \<noteq> ''3.12'') (supportedPythonVersions s1)\<rparr>))"

definition allInOne :: "programs \<Rightarrow> bool \<Rightarrow> checker \<Rightarrow> outcome" where
  "allInOne P forceVenvRecreate s =
     andThen (ensurePluginDir s) (\<lambda>s.
     andThen (openSSL P s) (\<lambda>s.
     andThen (ensurePythonVersion s) (\<lambda>s.
     andThen (ensureVenvCreated P forceVenvRecreate s) (\<lambda>s.
     andThen (ensureVenvUsesCorrectPythonHome P s) (\<lambda>s.
     andThen (ensureVenvPipUpToDate P s) (\<lambda>s.
     ensureVenvRequirementsSatisfied P s))))))"

section \<open>Power state: theorems\<close>

text \<open>
  C1 (as amended). A power-off command issued at time \<open>t\<close> is not forwarded to the device
  exactly when \<open>t - lastOnEvent \<le> 7500\<close>; otherwise \<open>turnOff\<close> is forwarded, once. The handler
  changes nothing else.
\<close>

theorem handleActiveSet_off:
  "handleActiveSet getState t INACTIVE s =
     (if t - lastOnEvent s \<le> 7500 then s else s\<lparr>deviceCalls := deviceCalls s @ [turnOff]\<rparr>)
   \<and> (deviceCalls (handleActiveSet getState t INACTIVE s) = deviceCalls s
        \<longleftrightarrow> t - lastOnEvent s \<le> 7500)"
  by (auto simp: handleActiveSet_def INACTIVE_def ACTIVE_def)

text \<open>
  C1 as stated fails on the boundary. With the last power-on at 1000000 and the power-off
  command at 1007500, \<open>t - lastOnEvent = 7500\<close> is not below 7500, and still \<open>turnOff\<close> is not
  forwarded: the source tests \<^verbatim>\<open>this.lastOnEvent + 7500 < Date.now()\<close>.
\<close>

theorem handleActiveSet_off_counterexample:
  "\<not> (deviceCalls
         (handleActiveSet (\<lambda>i. (None, None)) 1007500 INACTIVE
            \<lparr>service = Some \<lparr>Active = ACTIVE, CurrentMediaState = INTERRUPTED\<rparr>,
             deviceStateServices = Map.empty, mediaTypeServices = Map.empty,
             offline = False, turningOn = False, lastOnEvent = 1000000, deviceCalls = []\<rparr>)
        = []
       \<longleftrightarrow> (1007500 :: int) - 1000000 < 7500)"
  by (simp add: handleActiveSet_def INACTIVE_def ACTIVE_def)

text \<open>
  C2. A power-state event whose value is not \<open>on\<close> and that arrives at time \<open>t\<close> with
  \<open>t - lastOnEvent < 7500\<close>, an event with a \<^verbatim>\<open>null\<close> value, and an event whose value equals
  its old value each make \<open>handleActiveUpdate\<close> return normally without writing anything:
  the accessory, and so its \<open>Active\<close> characteristic, is unchanged.
\<close>

theorem handleActiveUpdate_suppressed:
  assumes "ev_value e = None \<or> ev_value e = oldValue e
           \<or> (ev_value e \<noteq> Some ''on'' \<and> t - lastOnEvent s < 7500)"
  shows "handleActiveUpdate t e s = Inr s"
  using assms by (auto simp: handleActiveUpdate_def INACTIVE_def ACTIVE_def)

theorem handleActiveUpdate_suppressed_witness:
  "handleActiveUpdate 1005000 \<lparr>key = ''powerState'', ev_value = Some ''off'', oldValue = Some ''on''\<rparr>
     \<lparr>service = Some \<lparr>Active = ACTIVE, CurrentMediaState = PLAY\<rparr>,
      deviceStateServices = Map.empty, mediaTypeServices = Map.empty,
      offline = False, turningOn = False, lastOnEvent = 1000000, deviceCalls = [turnOn]\<rparr>
   = Inr \<lparr>service = Some \<lparr>Active = ACTIVE, CurrentMediaState = PLAY\<rparr>,
      deviceStateServices = Map.empty, mediaTypeServices = Map.empty,
      offline = False, turningOn = False, lastOnEvent = 1000000, deviceCalls = [turnOn]\<rparr>"
  by (rule handleActiveUpdate_suppressed) simp

text \<open>
  C5 (as amended). While \<open>Active\<close> is \<open>INACTIVE\<close>, a device-state event and a media-type event
  each perform one indicator update at most: the \<open>MotionDetected\<close> of the sensor registered
  for the event's old value is set to false. Nothing else changes: no indicator is set to
  true, and \<open>CurrentMediaState\<close> is not written.
\<close>

theorem inactive_indicator_updates:
  assumes "serviceInactive s"
  shows "handleDeviceStateUpdate e s = setDeviceStateMotion (oldValue e) False s
       \<and> handleMediaTypeUpdate e s = setMediaTypeMotion (oldValue e) False s
       \<and> (\<forall>k. Some k \<noteq> oldValue e \<longrightarrow>
              deviceStateServices (handleDeviceStateUpdate e s) k = deviceStateServices s k
            \<and> mediaTypeServices (handleMediaTypeUpdate e s) k = mediaTypeServices s k)
       \<and> (\<forall>k. deviceStateServices (handleDeviceStateUpdate e s) k \<noteq> Some True
              \<or> deviceStateServices s k = Some True)
       \<and> (\<forall>k. mediaTypeServices (handleMediaTypeUpdate e s) k \<noteq> Some True
              \<or> mediaTypeServices s k = Some True)
       \<and> service (handleDeviceStateUpdate e s) = service s
       \<and> service (handleMediaTypeUpdate e s) = service s"
proof -
  have inactive_d: "serviceInactive (setDeviceStateMotion (oldValue e) False s)"
    using assms by (simp add: serviceInactive_def setDeviceStateMotion_def split: option.splits)
  have inactive_m: "serviceInactive (setMediaTypeMotion (oldValue e) False s)"
    using assms by (simp add: serviceInactive_def setMediaTypeMotion_def split: option.splits)
  have d: "handleDeviceStateUpdate e s = setDeviceStateMotion (oldValue e) False s"
    using inactive_d by (simp add: handleDeviceStateUpdate_def Let_def)
  have m: "handleMediaTypeUpdate e s = setMediaTypeMotion (oldValue e) False s"
    using inactive_m by (simp add: handleMediaTypeUpdate_def Let_def)
  show ?thesis
    unfolding d m
    by (auto simp: setDeviceStateMotion_def setMediaTypeMotion_def split: option.splits)
qed

theorem inactive_indicator_updates_witness:
  "handleDeviceStateUpdate \<lparr>key = ''deviceState'', ev_value = Some ''paused'', oldValue = Some ''playing''\<rparr>
     \<lparr>service = Some \<lparr>Active = INACTIVE, CurrentMediaState = PLAY\<rparr>,
      deviceStateServices = [''playing'' \<mapsto> True, ''paused'' \<mapsto> False],
      mediaTypeServices = Map.empty,
      offline = False, turningOn = False, lastOnEvent = 0, deviceCalls = []\<rparr>
   = \<lparr>service = Some \<lparr>Active = INACTIVE, CurrentMediaState = PLAY\<rparr>,
      deviceStateServices = [''playing'' \<mapsto> False, ''paused'' \<mapsto> False],
      mediaTypeServices = Map.empty,
      offline = False, turningOn = False, lastOnEvent = 0, deviceCalls = []\<rparr>"
proof -
  let ?s = "\<lparr>service = Some \<lparr>Active = INACTIVE, CurrentMediaState = PLAY\<rparr>,
      deviceStateServices = [''playing'' \<mapsto> True, ''paused'' \<mapsto> False],
      mediaTypeServices = Map.empty,
      offline = False, turningOn = False, lastOnEvent = 0, deviceCalls = []\<rparr>"
  have h: "serviceInactive ?s" by (simp add: serviceInactive_def)
  show ?thesis
    using inactive_indicator_updates [OF h, of "\<lparr>key = ''deviceState'', ev_value = Some ''paused'', oldValue = Some ''playing''\<rparr>"]
    by (simp add: setDeviceStateMotion_def fun_upd_twist)
qed

text \<open>
  C5 as stated fails: with \<open>Active\<close> \<open>INACTIVE\<close> and the \<open>playing\<close> indicator still on, a
  device-state event from \<open>playing\<close> to \<open>paused\<close> switches the \<open>playing\<close> indicator off. The
  source resets the old value's indicator before it tests \<open>Active\<close>.
\<close>

theorem inactive_indicator_counterexample:
  "serviceInactive
     \<lparr>service = Some \<lparr>Active = INACTIVE, CurrentMediaState = PLAY\<rparr>,
      deviceStateServices = [''playing'' \<mapsto> True], mediaTypeServices = Map.empty,
      offline = False, turningOn = False, lastOnEvent = 0, deviceCalls = []\<rparr>
   \<and> deviceStateServices
       (handleDeviceStateUpdate \<lparr>key = ''deviceState'', ev_value = Some ''paused'', oldValue = Some ''playing''\<rparr>
          \<lparr>service = Some \<lparr>Active = INACTIVE, CurrentMediaState = PLAY\<rparr>,
           deviceStateServices = [''playing'' \<mapsto> True], mediaTypeServices = Map.empty,
           offline = False, turningOn = False, lastOnEvent = 0, deviceCalls = []\<rparr>) ''playing''
     \<noteq> deviceStateServices
         \<lparr>service = Some \<lparr>Active = INACTIVE, CurrentMediaState = PLAY\<rparr>,
          deviceStateServices = [''playing'' \<mapsto> True], mediaTypeServices = Map.empty,
          offline = False, turningOn = False, lastOnEvent = 0, deviceCalls = []\<rparr> ''playing''"
  by (simp add: serviceInactive_def handleDeviceStateUpdate_def setDeviceStateMotion_def)

section \<open>Pairing: theorems\<close>












section \<open>Per-device files: theorems\<close>


lemma mkdirSync_keeps:
  assumes "mkdirSync p fsa = Inr fsb" and "fsa q = Some n"
  shows "fsb q = Some n"
  using assms
  by (auto simp: mkdirSync_def node_at_def split: if_splits option.splits)

lemma writeFileSync_wx_keeps:
  assumes "writeFileSync p t flag_wx fsa = Inr fsb" and "fsa q = Some n"
  shows "fsb q = Some n"
  using assms
  by (auto simp: writeFileSync_def node_at_def split: if_splits option.splits node.splits)

lemma getPath_keeps:
  assumes "fsa q = Some n"
  shows "snd (getPath ctx fname dflt fsa) q = Some n"
  using assms
  by (auto simp: getPath_def Let_def split: sum.splits option.splits if_splits
      dest: mkdirSync_keeps writeFileSync_wx_keeps)

lemma readJson_keeps:
  assumes "fsa q = Some n"
  shows "snd (readJson parse ctx fname fsa) q = Some n"
  using getPath_keeps [where fsa = fsa and q = q and n = n and ctx = ctx and fname = fname and dflt = "''{}''"] assms
  by (auto simp: readJson_def split: prod.splits sum.splits option.splits)

lemma getCredentials_keeps:
  assumes "files st q = Some n"
  shows "files (snd (getCredentials ctx st)) q = Some n"
  using getPath_keeps [where fsa = "files st" and q = q and n = n and ctx = ctx and fname = "''credentials.txt''" and dflt = "''''"] assms
  by (auto simp: getCredentials_def split: prod.splits sum.splits)

lemma getAppConfigs_keeps:
  assumes "files st q = Some n"
  shows "files (snd (getAppConfigs parse ctx st)) q = Some n"
  using assms readJson_keeps [where fsa = "files st" and q = q and n = n and parse = parse and ctx = ctx and fname = "''apps.json''"]
  by (auto simp: getAppConfigs_def split: prod.splits sum.splits option.splits)

lemma getPath_writes_default:
  assumes "deviceId ctx = Some ident"
    and "fsa (pluginDir ctx) = Some Dir"
    and "fsa (deviceDir ctx ident) = Some Dir"
    and "fsa (deviceDir ctx ident @ [fname]) = None"
  shows "getPath ctx fname dflt fsa
         = (Inr (deviceDir ctx ident @ [fname]), fsa(deviceDir ctx ident @ [fname] \<mapsto> File dflt))"
  using assms
  by (simp add: getPath_def existsSync_def node_at_def writeFileSync_def parentError_def
      pluginDir_def deviceDir_def Let_def butlast_append)

lemma getPath_ok:
  assumes "getPath ctx fname dflt fsa = (Inr p, fsb)"
  shows "\<exists>ident. deviceId ctx = Some ident \<and> p = deviceDir ctx ident @ [fname]
           \<and> existsSync (pluginDir ctx) fsb \<and> existsSync (deviceDir ctx ident) fsb"
  using assms
  by (auto simp: getPath_def Let_def existsSync_def node_at_def mkdirSync_def writeFileSync_def
      pluginDir_def deviceDir_def
      split: sum.splits option.splits if_splits node.splits)

lemma getPath_existing:
  assumes "deviceId ctx = Some ident"
    and "existsSync (pluginDir ctx) fsa" and "existsSync (deviceDir ctx ident) fsa"
    and "fsa (deviceDir ctx ident @ [fname]) = Some n"
  shows "getPath ctx fname dflt fsa = (Inr (deviceDir ctx ident @ [fname]), fsa)"
  using assms
  by (cases n) (simp_all add: getPath_def writeFileSync_def node_at_def)

lemma save_then_get:
  assumes "saveCredentials ctx creds st = (Inr (), st')"
  shows "getCredentials ctx st' = (Inr (trim creds), st')"
proof -
  obtain p fsb fsc where gp: "getPath ctx ''credentials.txt'' '''' (files st) = (Inr p, fsb)"
    and wr: "writeFileSync p creds flag_w fsb = Inr fsc" and st': "st' = st\<lparr>files := fsc\<rparr>"
    using assms
    by (auto simp: saveCredentials_def split: prod.splits sum.splits)
  obtain ident where ident: "deviceId ctx = Some ident"
    and p: "p = deviceDir ctx ident @ [''credentials.txt'']"
    and d1: "existsSync (pluginDir ctx) fsb" and d2: "existsSync (deviceDir ctx ident) fsb"
    using getPath_ok [OF gp] by blast
  have fsc: "fsc = fsb(p \<mapsto> File creds)"
    using wr by (auto simp: writeFileSync_def split: option.splits node.splits if_splits)
  have e1: "existsSync (pluginDir ctx) fsc" and e2: "existsSync (deviceDir ctx ident) fsc"
    using d1 d2 by (auto simp: fsc p existsSync_def node_at_def)
  have at: "fsc (deviceDir ctx ident @ [''credentials.txt'']) = Some (File creds)"
    by (simp add: fsc p)
  have "getPath ctx ''credentials.txt'' '''' fsc = (Inr p, fsc)"
    using getPath_existing [OF ident e1 e2 at] by (simp add: p)
  moreover have "readFileSync p fsc = Inr creds"
    using at by (simp add: readFileSync_def node_at_def p)
  ultimately show ?thesis
    by (simp add: getCredentials_def st')
qed

lemma getCommonConfig_keeps:
  assumes "files st q = Some n"
  shows "files (snd (getCommonConfig parse ctx st)) q = Some n"
  using assms readJson_keeps [where fsa = "files st" and q = q and n = n and parse = parse and ctx = ctx and fname = "''common.json''"]
  by (auto simp: getCommonConfig_def split: prod.splits sum.splits option.splits)

lemma getMediaConfig_keeps:
  assumes "files st q = Some n"
  shows "files (snd (getMediaConfig parse ctx st)) q = Some n"
  using assms readJson_keeps [where fsa = "files st" and q = q and n = n and parse = parse and ctx = ctx and fname = "''mediaTypes.json''"]
  by (auto simp: getMediaConfig_def split: prod.splits sum.splits option.splits)

lemma getDeviceStateConfig_keeps:
  assumes "files st q = Some n"
  shows "files (snd (getDeviceStateConfig parse ctx st)) q = Some n"
  using assms readJson_keeps [where fsa = "files st" and q = q and n = n and parse = parse and ctx = ctx and fname = "''deviceStates.json''"]
  by (auto simp: getDeviceStateConfig_def split: prod.splits sum.splits option.splits)

lemma saveCredentials_returns:
  assumes "deviceId ctx = Some ident"
    and "node_at (files st) (storagePath ctx) = Some Dir"
    and "files st (pluginDir ctx) = None \<or> files st (pluginDir ctx) = Some Dir"
    and "files st (deviceDir ctx ident) = None \<or> files st (deviceDir ctx ident) = Some Dir"
    and "files st (deviceDir ctx ident @ [''credentials.txt'']) = None
         \<or> (\<exists>t. files st (deviceDir ctx ident @ [''credentials.txt'']) = Some (File t))"
  shows "\<exists>st'. saveCredentials ctx creds st = (Inr (), st')"
  using assms
  by (auto simp: saveCredentials_def getPath_def existsSync_def node_at_def mkdirSync_def
      writeFileSync_def parentError_def pluginDir_def deviceDir_def Let_def butlast_append
      split: if_splits)

text \<open>
  C8. Whenever \<open>saveCredentials\<close> returns, \<open>getCredentials\<close> called next returns the saved
  string trimmed, and changes nothing. And \<open>saveCredentials\<close> does return, for every string,
  when the storage path is a directory and each of the plugin directory, the device
  directory and \<open>credentials.txt\<close> is either missing or of its kind.
\<close>

theorem credentials_roundtrip:
  "(deviceId ctx = Some ident
      \<and> node_at (files st) (storagePath ctx) = Some Dir
      \<and> (files st (pluginDir ctx) = None \<or> files st (pluginDir ctx) = Some Dir)
      \<and> (files st (deviceDir ctx ident) = None \<or> files st (deviceDir ctx ident) = Some Dir)
      \<and> (files st (deviceDir ctx ident @ [''credentials.txt'']) = None
           \<or> (\<exists>t. files st (deviceDir ctx ident @ [''credentials.txt'']) = Some (File t)))
     \<longrightarrow> (\<exists>st'. saveCredentials ctx creds st = (Inr (), st')))
   \<and> (\<forall>st'. saveCredentials ctx creds st = (Inr (), st')
         \<longrightarrow> getCredentials ctx st' = (Inr (trim creds), st'))"
  using saveCredentials_returns [of ctx ident st creds] save_then_get [of ctx creds st]
  by blast

theorem credentials_roundtrip_witness:
  "saveCredentials \<lparr>storagePath = [''homebridge''], deviceId = Some ''AA:BB:CC:DD:EE:FF''\<rparr>
     '' 3f9a:c2d1 ''
     \<lparr>files = Map.empty([''homebridge''] \<mapsto> Dir),
      appConfigs = None :: unit option, commonConfig = None, stateConfigs = None,
      mediaConfigs = None\<rparr>
   = (Inr (),
      \<lparr>files = Map.empty([''homebridge''] \<mapsto> Dir,
                [''homebridge'', ''appletv-enhanced''] \<mapsto> Dir,
                [''homebridge'', ''appletv-enhanced'', ''AABBCCDDEEFF''] \<mapsto> Dir,
                [''homebridge'', ''appletv-enhanced'', ''AABBCCDDEEFF'', ''credentials.txt'']
                  \<mapsto> File '' 3f9a:c2d1 ''),
       appConfigs = None, commonConfig = None, stateConfigs = None, mediaConfigs = None\<rparr>)
   \<and> fst (getCredentials \<lparr>storagePath = [''homebridge''], deviceId = Some ''AA:BB:CC:DD:EE:FF''\<rparr>
      \<lparr>files = Map.empty([''homebridge''] \<mapsto> Dir,
                [''homebridge'', ''appletv-enhanced''] \<mapsto> Dir,
                [''homebridge'', ''appletv-enhanced'', ''AABBCCDDEEFF''] \<mapsto> Dir,
                [''homebridge'', ''appletv-enhanced'', ''AABBCCDDEEFF'', ''credentials.txt'']
                  \<mapsto> File '' 3f9a:c2d1 ''),
       appConfigs = None :: unit option, commonConfig = None, stateConfigs = None,
       mediaConfigs = None\<rparr>)
     = Inr ''3f9a:c2d1''"
proof -
  let ?ctx = "\<lparr>storagePath = [''homebridge''], deviceId = Some ''AA:BB:CC:DD:EE:FF''\<rparr>"
  let ?st = "\<lparr>files = Map.empty([''homebridge''] \<mapsto> Dir),
      appConfigs = None :: unit option, commonConfig = None, stateConfigs = None,
      mediaConfigs = None\<rparr>"
  have save: "saveCredentials ?ctx '' 3f9a:c2d1 '' ?st
   = (Inr (),
      \<lparr>files = Map.empty([''homebridge''] \<mapsto> Dir,
                [''homebridge'', ''appletv-enhanced''] \<mapsto> Dir,
                [''homebridge'', ''appletv-enhanced'', ''AABBCCDDEEFF''] \<mapsto> Dir,
                [''homebridge'', ''appletv-enhanced'', ''AABBCCDDEEFF'', ''credentials.txt'']
                  \<mapsto> File '' 3f9a:c2d1 ''),
       appConfigs = None, commonConfig = None, stateConfigs = None, mediaConfigs = None\<rparr>)"
    by (simp add: saveCredentials_def getPath_def existsSync_def node_at_def mkdirSync_def
        writeFileSync_def parentError_def pluginDir_def deviceDir_def replaceAll_def Let_def)
  have tr: "trim '' 3f9a:c2d1 '' = ''3f9a:c2d1''"
    by (simp add: trim_def isWhiteSpace_def)
  show ?thesis
    using save credentials_roundtrip [of ?ctx "''AA:BB:CC:DD:EE:FF''" ?st "'' 3f9a:c2d1 ''"] tr
    by simp
qed

text \<open>
  C10. \<open>getPath\<close> only ever adds entries: every path that exists before the call, file or
  directory, has the same node after it, whether the call returns or throws. So do the
  five read operations \<open>getCredentials\<close>, \<open>getAppConfigs\<close>, \<open>getCommonConfig\<close>,
  \<open>getMediaConfig\<close> and \<open>getDeviceStateConfig\<close>: a file that is present keeps its content.
  The default content is written when the file is missing and its directories exist.
\<close>

theorem read_paths_keep_existing_files:
  "(files st q = Some n \<longrightarrow>
      snd (getPath ctx fname dflt (files st)) q = Some n
    \<and> files (snd (getCredentials ctx st)) q = Some n
    \<and> files (snd (getAppConfigs parse ctx st)) q = Some n
    \<and> files (snd (getCommonConfig parse ctx st)) q = Some n
    \<and> files (snd (getMediaConfig parse ctx st)) q = Some n
    \<and> files (snd (getDeviceStateConfig parse ctx st)) q = Some n)
   \<and> (deviceId ctx = Some ident
        \<and> files st (pluginDir ctx) = Some Dir
        \<and> files st (deviceDir ctx ident) = Some Dir
        \<and> files st (deviceDir ctx ident @ [fname]) = None \<longrightarrow>
      getPath ctx fname dflt (files st)
        = (Inr (deviceDir ctx ident @ [fname]),
           (files st)(deviceDir ctx ident @ [fname] \<mapsto> File dflt)))"
  using getPath_keeps [where fsa = "files st" and q = q and n = n and ctx = ctx
        and fname = fname and dflt = dflt]
    getCredentials_keeps [of st q n ctx]
    getAppConfigs_keeps [of st q n parse ctx]
    getCommonConfig_keeps [of st q n parse ctx]
    getMediaConfig_keeps [of st q n parse ctx]
    getDeviceStateConfig_keeps [of st q n parse ctx]
    getPath_writes_default [of ctx ident "files st" fname dflt]
  by blast

theorem read_paths_keep_existing_files_witness:
  "files (snd (getAppConfigs (\<lambda>t. if t = ''{}'' then Some () else None)
      \<lparr>storagePath = [''homebridge''], deviceId = Some ''AA:BB:CC:DD:EE:FF''\<rparr>
      \<lparr>files = Map.empty([''homebridge''] \<mapsto> Dir,
                [''homebridge'', ''appletv-enhanced''] \<mapsto> Dir,
                [''homebridge'', ''appletv-enhanced'', ''AABBCCDDEEFF''] \<mapsto> Dir,
                [''homebridge'', ''appletv-enhanced'', ''AABBCCDDEEFF'', ''apps.json'']
                  \<mapsto> File ''[1, 2]''),
       appConfigs = None, commonConfig = None, stateConfigs = None, mediaConfigs = None\<rparr>))
     [''homebridge'', ''appletv-enhanced'', ''AABBCCDDEEFF'', ''apps.json'']
   = Some (File ''[1, 2]'')"
proof -
  let ?ctx = "\<lparr>storagePath = [''homebridge''], deviceId = Some ''AA:BB:CC:DD:EE:FF''\<rparr>"
  let ?st = "\<lparr>files = Map.empty([''homebridge''] \<mapsto> Dir,
                [''homebridge'', ''appletv-enhanced''] \<mapsto> Dir,
                [''homebridge'', ''appletv-enhanced'', ''AABBCCDDEEFF''] \<mapsto> Dir,
                [''homebridge'', ''appletv-enhanced'', ''AABBCCDDEEFF'', ''apps.json'']
                  \<mapsto> File ''[1, 2]''),
       appConfigs = None :: unit option, commonConfig = None, stateConfigs = None,
       mediaConfigs = None\<rparr>"
  have h: "files ?st [''homebridge'', ''appletv-enhanced'', ''AABBCCDDEEFF'', ''apps.json'']
           = Some (File ''[1, 2]'')"
    by simp
  show ?thesis
    using h read_paths_keep_existing_files [of ?st
        "[''homebridge'', ''appletv-enhanced'', ''AABBCCDDEEFF'', ''apps.json'']"
        "File ''[1, 2]''" ?ctx _ _ "\<lambda>t. if t = ''{}'' then Some () else None"]
    by blast
qed

section \<open>The control channel: theorems\<close>









section \<open>The Python environment checker: theorems\<close>

lemma allPinned_iff:
  "allPinned freeze requirements pkgs \<longleftrightarrow> (\<forall>pkg\<in>set pkgs. lookup freeze pkg = lookup requirements pkg)"
  by (induction pkgs) simp_all

lemma did_simps:
  "sys (did a s) = sys s"
  "requirementsPath (did a s) = requirementsPath s"
  "supportedPythonVersions (did a s) = supportedPythonVersions s"
  "actions (did a s) = actions s @ [a]"
  by (simp_all add: did_def)

lemma ensurePluginDir_exists:
  "pluginDirExists (sys s) \<Longrightarrow> ensurePluginDir s = Done s"
  by (simp add: ensurePluginDir_def)

lemma ensurePythonVersion_supported:
  assumes "list_ex (includes_str (replaceFirst (trim (pythonVersionOut (sys s))) ''Python '' ''''))
             (supportedPythonVersions s)"
  shows "ensurePythonVersion s = Done (did PythonVersion s)"
  using assms by (simp add: ensurePythonVersion_def getSystemPythonVersion_def did_simps)

lemma ensureVenvCreated_present:
  "isVenvCreated s \<Longrightarrow> ensureVenvCreated P False s = Done s"
  by (simp add: ensureVenvCreated_def)

lemma ensureVenvUsesCorrectPythonHome_same:
  assumes "trim (venvPythonHomeOut (sys s)) = trim (systemPythonHomeOut (sys s))"
  shows "ensureVenvUsesCorrectPythonHome P s
         = Done (did (PythonHome SystemPython) (did (PythonHome VenvPython) s))"
  using assms by (simp add: ensureVenvUsesCorrectPythonHome_def getPythonHome_def did_simps)

lemma ensureVenvPipUpToDate_latest:
  assumes "pypiPipVersion (sys s) = Some (fst (getVenvPipVersion s))"
  shows "ensureVenvPipUpToDate P s = Done (did PypiRequest (did PipVersion s))"
  using assms
  by (simp add: ensureVenvPipUpToDate_def getMostRecentPipVersion_def getVenvPipVersion_def
      did_simps split: prod.splits)

lemma ensureVenvRequirementsSatisfied_pinned:
  assumes "\<forall>pkg\<in>set (map fst (freezeStringToObject (requirementsText s))).
             lookup (freezeStringToObject (pipFreezeOut (sys s))) pkg
             = lookup (freezeStringToObject (requirementsText s)) pkg"
  shows "ensureVenvRequirementsSatisfied P s = Done (did PipFreeze s)"
proof -
  have "requirementsText (did PipFreeze s) = requirementsText s"
    by (simp add: requirementsText_def did_simps split: requirements_file.splits)
  then show ?thesis
    using assms
    by (simp add: ensureVenvRequirementsSatisfied_def areRequirementsSatisfied_def Let_def
        allPinned_iff)
qed

lemma satisfied_run:
  assumes dir: "pluginDirExists (sys s)"
    and py: "list_ex (includes_str (replaceFirst (trim (pythonVersionOut (sys s))) ''Python '' ''''))
               (if openSSLCompatible P (sys s) then supportedPythonVersions s
                else filter (\<lambda>e. e \<noteq> ''3.12'') (supportedPythonVersions s))"
    and venv: "isVenvCreated s"
    and home: "trim (venvPythonHomeOut (sys s)) = trim (systemPythonHomeOut (sys s))"
    and pip: "pypiPipVersion (sys s) = Some (fst (getVenvPipVersion s))"
    and pinned: "\<forall>pkg\<in>set (map fst (freezeStringToObject
                     (if openSSLCompatible P (sys s) then requirementsText s
                      else requirementsLegacy (sys s)))).
             lookup (freezeStringToObject (pipFreezeOut (sys s))) pkg
             = lookup (freezeStringToObject
                     (if openSSLCompatible P (sys s) then requirementsText s
                      else requirementsLegacy (sys s))) pkg"
  shows "allInOne P False s
         = Done (s\<lparr>requirementsPath :=
                     (if openSSLCompatible P (sys s) then requirementsPath s
                      else openssl_legacy_requirements),
                   supportedPythonVersions :=
                     (if openSSLCompatible P (sys s) then supportedPythonVersions s
                      else filter (\<lambda>e. e \<noteq> ''3.12'') (supportedPythonVersions s)),
                   actions := actions s @
                     [OpensslVersion, PythonVersion, PythonHome VenvPython,
                      PythonHome SystemPython, PipVersion, PypiRequest, PipFreeze]\<rparr>)"
proof -
  define s0 where "s0 = s\<lparr>requirementsPath :=
                     (if openSSLCompatible P (sys s) then requirementsPath s
                      else openssl_legacy_requirements),
                   supportedPythonVersions :=
                     (if openSSLCompatible P (sys s) then supportedPythonVersions s
                      else filter (\<lambda>e. e \<noteq> ''3.12'') (supportedPythonVersions s))\<rparr>"
  have s0: "sys s0 = sys s"
    "supportedPythonVersions s0 =
               (if openSSLCompatible P (sys s) then supportedPythonVersions s
                else filter (\<lambda>e. e \<noteq> ''3.12'') (supportedPythonVersions s))"
    "requirementsText s0 = (if openSSLCompatible P (sys s) then requirementsText s
                      else requirementsLegacy (sys s))"
    by (simp_all add: s0_def requirementsText_def split: requirements_file.splits)
  let ?s1 = "did OpensslVersion s0"
  have o: "openSSL P s = Done ?s1"
    by (simp add: openSSL_def Let_def did_def s0_def)
  have p: "ensurePythonVersion ?s1 = Done (did PythonVersion ?s1)"
    by (rule ensurePythonVersion_supported) (use py in \<open>simp add: did_simps s0\<close>)
  let ?s2 = "did PythonVersion ?s1"
  have v: "ensureVenvCreated P False ?s2 = Done ?s2"
    by (rule ensureVenvCreated_present) (use venv in \<open>simp add: isVenvCreated_def did_simps s0\<close>)
  have h: "ensureVenvUsesCorrectPythonHome P ?s2
         = Done (did (PythonHome SystemPython) (did (PythonHome VenvPython) ?s2))"
    by (rule ensureVenvUsesCorrectPythonHome_same) (use home in \<open>simp add: did_simps s0\<close>)
  let ?s4 = "did (PythonHome SystemPython) (did (PythonHome VenvPython) ?s2)"
  have u: "ensureVenvPipUpToDate P ?s4 = Done (did PypiRequest (did PipVersion ?s4))"
    by (rule ensureVenvPipUpToDate_latest)
      (use pip in \<open>simp add: getVenvPipVersion_def did_simps s0\<close>)
  let ?s6 = "did PypiRequest (did PipVersion ?s4)"
  have rtext: "requirementsText ?s6 = requirementsText s0"
    by (simp add: requirementsText_def did_simps split: requirements_file.splits)
  have r: "ensureVenvRequirementsSatisfied P ?s6 = Done (did PipFreeze ?s6)"
    by (rule ensureVenvRequirementsSatisfied_pinned)
      (use pinned in \<open>simp add: rtext did_simps s0\<close>)
  have "allInOne P False s = Done (did PipFreeze ?s6)"
    unfolding allInOne_def
    by (simp only: ensurePluginDir_exists [OF dir] o p v h u r andThen_def outcome.case)
  then show ?thesis
    by (simp add: did_def s0_def)
qed

text \<open>
  C7. Call an environment satisfied when the plugin directory exists, the interpreter's
  version is one the checker supports once its OpenSSL step has run, the three files of
  the virtual environment exist, the virtual environment's Python home is the system's,
  PyPI answers and its latest pip is the virtual environment's pip, and every package of
  the requirements file the OpenSSL step selects is in \<^verbatim>\<open>pip freeze\<close> at the pinned version
  (\<open>freezeStringToObject\<close> reads \<open>_\<close> in a name as \<open>-\<close>). In a satisfied environment
  \<open>allInOne\<close> with \<open>forceVenvRecreate = false\<close> returns, leaves the machine as it was, and
  runs the seven queries and nothing else: it makes no directory, creates no virtual
  environment and starts no \<^verbatim>\<open>pip install\<close>. The environment is then satisfied still, and
  a second run does the same.
\<close>

theorem satisfied_environment_untouched:
  assumes dir: "pluginDirExists (sys s)"
    and py: "list_ex (includes_str (replaceFirst (trim (pythonVersionOut (sys s))) ''Python '' ''''))
               (if openSSLCompatible P (sys s) then supportedPythonVersions s
                else filter (\<lambda>e. e \<noteq> ''3.12'') (supportedPythonVersions s))"
    and venv: "isVenvCreated s"
    and home: "trim (venvPythonHomeOut (sys s)) = trim (systemPythonHomeOut (sys s))"
    and pip: "pypiPipVersion (sys s) = Some (fst (getVenvPipVersion s))"
    and pinned: "\<forall>pkg\<in>set (map fst (freezeStringToObject
                     (if openSSLCompatible P (sys s) then requirementsText s
                      else requirementsLegacy (sys s)))).
             lookup (freezeStringToObject (pipFreezeOut (sys s))) pkg
             = lookup (freezeStringToObject
                     (if openSSLCompatible P (sys s) then requirementsText s
                      else requirementsLegacy (sys s))) pkg"
  shows "let queries = [OpensslVersion, PythonVersion, PythonHome VenvPython,
                        PythonHome SystemPython, PipVersion, PypiRequest, PipFreeze]
         in (\<exists>s'. allInOne P False s = Done s'
                 \<and> sys s' = sys s
                 \<and> actions s' = actions s @ queries
                 \<and> requirementsPath s' =
                     (if openSSLCompatible P (sys s) then requirementsPath s
                      else openssl_legacy_requirements)
                 \<and> supportedPythonVersions s' =
                     (if openSSLCompatible P (sys s) then supportedPythonVersions s
                      else filter (\<lambda>e. e \<noteq> ''3.12'') (supportedPythonVersions s))
                 \<and> allInOne P False s' = Done (s'\<lparr>actions := actions s' @ queries\<rparr>))
            \<and> MkdirPluginDir \<notin> set queries \<and> VenvCreate \<notin> set queries
            \<and> PipUpgrade \<notin> set queries \<and> (\<forall>f. PipInstallRequirements f \<notin> set queries)"
proof -
  let ?q = "[OpensslVersion, PythonVersion, PythonHome VenvPython,
             PythonHome SystemPython, PipVersion, PypiRequest, PipFreeze]"
  define s' where "s' = s\<lparr>requirementsPath :=
                     (if openSSLCompatible P (sys s) then requirementsPath s
                      else openssl_legacy_requirements),
                   supportedPythonVersions :=
                     (if openSSLCompatible P (sys s) then supportedPythonVersions s
                      else filter (\<lambda>e. e \<noteq> ''3.12'') (supportedPythonVersions s)),
                   actions := actions s @ ?q\<rparr>"
  have first: "allInOne P False s = Done s'"
    unfolding s'_def by (rule satisfied_run [OF dir py venv home pip pinned])
  have same: "sys s' = sys s" and acts: "actions s' = actions s @ ?q"
    by (simp_all add: s'_def)
  have rtext: "(if openSSLCompatible P (sys s) then requirementsText s'
                else requirementsLegacy (sys s))
             = (if openSSLCompatible P (sys s) then requirementsText s
                else requirementsLegacy (sys s))"
    by (simp add: s'_def requirementsText_def split: requirements_file.splits)
  have sup: "(if openSSLCompatible P (sys s) then supportedPythonVersions s'
              else filter (\<lambda>e. e \<noteq> ''3.12'') (supportedPythonVersions s'))
           = supportedPythonVersions s'"
    by (simp add: s'_def)
  have sup': "supportedPythonVersions s'
           = (if openSSLCompatible P (sys s) then supportedPythonVersions s
              else filter (\<lambda>e. e \<noteq> ''3.12'') (supportedPythonVersions s))"
    by (simp add: s'_def)
  have dir': "pluginDirExists (sys s')"
    using dir by (simp add: same)
  have py': "list_ex (includes_str (replaceFirst (trim (pythonVersionOut (sys s'))) ''Python '' ''''))
               (if openSSLCompatible P (sys s') then supportedPythonVersions s'
                else filter (\<lambda>e. e \<noteq> ''3.12'') (supportedPythonVersions s'))"
    using py unfolding same sup by (simp only: sup')
  have venv': "isVenvCreated s'"
    using venv by (simp add: isVenvCreated_def same)
  have home': "trim (venvPythonHomeOut (sys s')) = trim (systemPythonHomeOut (sys s'))"
    using home by (simp add: same)
  have pip': "pypiPipVersion (sys s') = Some (fst (getVenvPipVersion s'))"
    using pip by (simp add: getVenvPipVersion_def same)
  have pinned': "\<forall>pkg\<in>set (map fst (freezeStringToObject
                     (if openSSLCompatible P (sys s') then requirementsText s'
                      else requirementsLegacy (sys s')))).
             lookup (freezeStringToObject (pipFreezeOut (sys s'))) pkg
             = lookup (freezeStringToObject
                     (if openSSLCompatible P (sys s') then requirementsText s'
                      else requirementsLegacy (sys s'))) pkg"
    using pinned unfolding same rtext .
  have again: "allInOne P False s' = Done (s'\<lparr>actions := actions s' @ ?q\<rparr>)"
    unfolding satisfied_run [OF dir' py' venv' home' pip' pinned']
    by (simp add: s'_def)
  have rp: "requirementsPath s' =
              (if openSSLCompatible P (sys s) then requirementsPath s
               else openssl_legacy_requirements)"
    by (simp add: s'_def)
  show ?thesis
    unfolding Let_def using first same acts rp sup' again by simp
qed

theorem satisfied_environment_untouched_witness:
  "allInOne
     \<lparr>venvCreate = (\<lambda>m. ('''', m)), pipUpgrade = (\<lambda>m. m), pipInstall = (\<lambda>f m. m),
      compareVersions = (\<lambda>a b. if a = b then 0 else -1)\<rparr>
     False
     \<lparr>requirementsPath = default_requirements,
      supportedPythonVersions = [''3.8'', ''3.9'', ''3.10'', ''3.11'', ''3.12''],
      sys = \<lparr>storagePathExists = True, pluginDirExists = True, venvPipExists = True,
             venvConfigExists = True, venvPythonExists = True,
             opensslVersionOut = ''OpenSSL 3.0.13 30 Jan 2024'',
             pythonVersionOut = ''Python 3.11.2\<newline>'',
             venvPythonHomeOut = ''/usr\<newline>'',
             systemPythonHomeOut = ''/usr\<newline>'',
             pipVersionOut = ''pip 24.0 from /venv/pip (python 3.11)\<newline>'',
             pipFreezeOut = ''other==2.1\<newline>miniaudio-x==1.0\<newline>pyatv==0.14.3\<newline>'',
             pypiPipVersion = Some ''24.0'',
             requirementsDefault = ''pyatv==0.14.3\<newline>miniaudio_x==1.0\<newline>'',
             requirementsLegacy = ''pyatv==0.13.4''\<rparr>,
      actions = []\<rparr>
   = Done
     \<lparr>requirementsPath = default_requirements,
      supportedPythonVersions = [''3.8'', ''3.9'', ''3.10'', ''3.11'', ''3.12''],
      sys = \<lparr>storagePathExists = True, pluginDirExists = True, venvPipExists = True,
             venvConfigExists = True, venvPythonExists = True,
             opensslVersionOut = ''OpenSSL 3.0.13 30 Jan 2024'',
             pythonVersionOut = ''Python 3.11.2\<newline>'',
             venvPythonHomeOut = ''/usr\<newline>'',
             systemPythonHomeOut = ''/usr\<newline>'',
             pipVersionOut = ''pip 24.0 from /venv/pip (python 3.11)\<newline>'',
             pipFreezeOut = ''other==2.1\<newline>miniaudio-x==1.0\<newline>pyatv==0.14.3\<newline>'',
             pypiPipVersion = Some ''24.0'',
             requirementsDefault = ''pyatv==0.14.3\<newline>miniaudio_x==1.0\<newline>'',
             requirementsLegacy = ''pyatv==0.13.4''\<rparr>,
      actions = [OpensslVersion, PythonVersion, PythonHome VenvPython,
                 PythonHome SystemPython, PipVersion, PypiRequest, PipFreeze]\<rparr>"
proof -
  let ?P = "\<lparr>venvCreate = (\<lambda>m. ('''', m)), pipUpgrade = (\<lambda>m. m), pipInstall = (\<lambda>f m. m),
      compareVersions = (\<lambda>a b. if a = b then (0::int) else -1)\<rparr>"
  let ?m = "\<lparr>storagePathExists = True, pluginDirExists = True, venvPipExists = True,
             venvConfigExists = True, venvPythonExists = True,
             opensslVersionOut = ''OpenSSL 3.0.13 30 Jan 2024'',
             pythonVersionOut = ''Python 3.11.2\<newline>'',
             venvPythonHomeOut = ''/usr\<newline>'',
             systemPythonHomeOut = ''/usr\<newline>'',
             pipVersionOut = ''pip 24.0 from /venv/pip (python 3.11)\<newline>'',
             pipFreezeOut = ''other==2.1\<newline>miniaudio-x==1.0\<newline>pyatv==0.14.3\<newline>'',
             pypiPipVersion = Some ''24.0'',
             requirementsDefault = ''pyatv==0.14.3\<newline>miniaudio_x==1.0\<newline>'',
             requirementsLegacy = ''pyatv==0.13.4''\<rparr>"
  let ?s = "\<lparr>requirementsPath = default_requirements,
      supportedPythonVersions = [''3.8'', ''3.9'', ''3.10'', ''3.11'', ''3.12''],
      sys = ?m, actions = []\<rparr>"
  have ssl: "matchVersion ''OpenSSL 3.0.13 30 Jan 2024'' = Some ''3.0.13''"
    by code_simp
  have compat: "openSSLCompatible ?P ?m"
    by (simp add: openSSLCompatible_def ssl MIN_OPENSSL_VERSION_def del: matchVersion.simps)
  have version: "replaceFirst (trim (''Python 3.11.2\<newline>'')) ''Python '' '''' = ''3.11.2''"
    by code_simp
  have supported: "includes_str ''3.11.2'' ''3.11''"
    by code_simp
  have dir: "pluginDirExists (sys ?s)"
    by simp
  have py: "list_ex (includes_str (replaceFirst (trim (pythonVersionOut (sys ?s))) ''Python '' ''''))
               (if openSSLCompatible ?P (sys ?s) then supportedPythonVersions ?s
                else filter (\<lambda>e. e \<noteq> ''3.12'') (supportedPythonVersions ?s))"
    using compat version supported by simp
  have venv: "isVenvCreated ?s"
    by (simp add: isVenvCreated_def)
  have home: "trim (venvPythonHomeOut (sys ?s)) = trim (systemPythonHomeOut (sys ?s))"
    by simp
  have pipv: "at_index (split (replaceFirst (trim (''pip 24.0 from /venv/pip (python 3.11)\<newline>''))
                ''pip '' '''') '' '') 0 = Some ''24.0''"
    by code_simp
  have pip: "pypiPipVersion (sys ?s) = Some (fst (getVenvPipVersion ?s))"
    using pipv by (simp add: getVenvPipVersion_def)
  have req: "freezeStringToObject (''pyatv==0.14.3\<newline>miniaudio_x==1.0\<newline>'')
             = [(''pyatv'', Some ''0.14.3''), (''miniaudio-x'', Some ''1.0'')]"
    by code_simp
  have frz: "freezeStringToObject (''other==2.1\<newline>miniaudio-x==1.0\<newline>pyatv==0.14.3\<newline>'')
             = [(''other'', Some ''2.1''), (''miniaudio-x'', Some ''1.0''), (''pyatv'', Some ''0.14.3'')]"
    by code_simp
  have pinned: "\<forall>pkg\<in>set (map fst (freezeStringToObject
                     (if openSSLCompatible ?P (sys ?s) then requirementsText ?s
                      else requirementsLegacy (sys ?s)))).
             lookup (freezeStringToObject (pipFreezeOut (sys ?s))) pkg
             = lookup (freezeStringToObject
                     (if openSSLCompatible ?P (sys ?s) then requirementsText ?s
                      else requirementsLegacy (sys ?s))) pkg"
    using compat by (simp add: requirementsText_def req frz lookup_def)
  obtain s' where run: "allInOne ?P False ?s = Done s'"
    and fields: "sys s' = ?m" "requirementsPath s' = default_requirements"
      "supportedPythonVersions s' = [''3.8'', ''3.9'', ''3.10'', ''3.11'', ''3.12'']"
      "actions s' = [OpensslVersion, PythonVersion, PythonHome VenvPython,
                 PythonHome SystemPython, PipVersion, PypiRequest, PipFreeze]"
    using satisfied_environment_untouched [OF dir py venv home pip pinned] compat
    by (auto simp: Let_def)
  show ?thesis
    unfolding run using fields by (cases s') simp
qed

end
